theory Spec2Isabelle
  imports Main "HOL-Library.Sublist" "HOL-Library.AList" "HOL-Library.Char_ord"
    "HOL-Library.List_Lexorder"
begin

section \<open>Foundry: the template materialization pipeline\<close>

text \<open>
  A shallow embedding of \<^verbatim>\<open>internal/utils/utils.go\<close>, \<^verbatim>\<open>internal/project/create.go\<close> and
  the template branch of \<^verbatim>\<open>newCmd.Run\<close> in \<^verbatim>\<open>cmd/new.go\<close>.

  Go strings and byte slices are byte sequences: both are \<^typ>\<open>string\<close> here, so that
  \<^verbatim>\<open>string(content)\<close> and \<^verbatim>\<open>[]byte(s)\<close> are the identity. The platform is Unix:
  \<^verbatim>\<open>os.PathSeparator\<close> is \<^verbatim>\<open>/\<close>.
\<close>

subsection \<open>Library functions that are left open\<close>

text \<open>
  Three functions of the Go standard library are not modelled but taken as parameters, so
  that every theorem holds whatever they compute: \<^verbatim>\<open>filepath.Match\<close> (its boolean
  result; the callers drop its error), \<^verbatim>\<open>strings.ToLower\<close> and \<^verbatim>\<open>strings.ToUpper\<close>.
  \<open>mapPrio\<close> stands for the order in which the Go runtime happens to iterate over a map
  while the file \<open>src\<close> is copied: keys are visited by ascending priority.
\<close>

record golib =
  glob :: "string \<Rightarrow> string \<Rightarrow> bool"
  toLower :: "string \<Rightarrow> string"
  toUpper :: "string \<Rightarrow> string"
  mapPrio :: "string \<Rightarrow> string \<Rightarrow> nat"

subsection \<open>Package strings\<close>

definition HasPrefix :: "string \<Rightarrow> string \<Rightarrow> bool" where
  "HasPrefix s pre = prefix pre s"

definition HasSuffix :: "string \<Rightarrow> string \<Rightarrow> bool" where
  "HasSuffix s suf = suffix suf s"

definition TrimSuffix :: "string \<Rightarrow> string \<Rightarrow> string" where
  "TrimSuffix s suf = (if HasSuffix s suf then take (length s - length suf) s else s)"

fun Contains :: "string \<Rightarrow> string \<Rightarrow> bool" where
  "Contains [] substr = (substr = [])"
| "Contains (c # s) substr = (prefix substr (c # s) \<or> Contains s substr)"

text \<open>
  \<^verbatim>\<open>strings.ReplaceAll(s, old, new)\<close> replaces the non-overlapping occurrences of \<open>old\<close>
  from left to right. With an empty \<open>old\<close> Go inserts \<open>new\<close> before every character and
  at the end; \<^verbatim>\<open>ReplacePlaceholders\<close> never passes an empty \<open>old\<close>.
\<close>

fun ReplaceAll :: "string \<Rightarrow> string \<Rightarrow> string \<Rightarrow> string" where
  "ReplaceAll [] old new = (if old = [] then new else [])"
| "ReplaceAll (c # s) [] new = new @ c # ReplaceAll s [] new"
| "ReplaceAll (c # s) (x # old) new =
     (if prefix (x # old) (c # s) then new @ ReplaceAll (drop (length old) s) (x # old) new
      else c # ReplaceAll s (x # old) new)"

text \<open>The ASCII white space that \<^verbatim>\<open>strings.TrimSpace\<close> removes at both ends.\<close>

definition isSpace :: "char \<Rightarrow> bool" where
  "isSpace c = (c = CHR 0x09 \<or> c = CHR 0x0A \<or> c = CHR 0x0B \<or> c = CHR 0x0C
                \<or> c = CHR 0x0D \<or> c = CHR 0x20)"

definition TrimSpace :: "string \<Rightarrow> string" where
  "TrimSpace s = rev (dropWhile isSpace (rev (dropWhile isSpace s)))"

subsection \<open>Package utils\<close>

definition Min :: "int \<Rightarrow> int \<Rightarrow> int" where
  "Min a b = (if a < b then a else b)"

text \<open>The loop of \<^verbatim>\<open>IsBinary\<close>, from index \<open>i\<close>; \<open>i < checkSize \<le> len(data)\<close> keeps
  the read in range.\<close>

function IsBinary_loop :: "string \<Rightarrow> int \<Rightarrow> int \<Rightarrow> bool" where
  "IsBinary_loop data checkSize i =
     (if i < checkSize
      then (if data ! nat i = CHR 0x00 then True else IsBinary_loop data checkSize (i + 1))
      else False)"
  by pat_completeness auto
termination
  by (relation "measure (\<lambda>(data, checkSize, i). nat (checkSize - i))") auto

declare IsBinary_loop.simps [simp del]

definition IsBinary :: "string \<Rightarrow> int \<Rightarrow> bool" where
  "IsBinary data maxCheckBytes = IsBinary_loop data (Min (int (length data)) maxCheckBytes) 0"

text \<open>
  \<^verbatim>\<open>ReplacePlaceholders\<close>. A Go map is an association list with distinct keys; the map
  literal holds the four built-in tokens, and the first loop stores every extra variable
  under its wrapped key, replacing the value of a key that is already there.
\<close>

definition builtins :: "golib \<Rightarrow> string \<Rightarrow> string \<Rightarrow> (string \<times> string) list" where
  "builtins L projectName author =
     [(''{{PROJECT_NAME}}'', projectName),
      (''{{AUTHOR}}'', author),
      (''{{PROJECT_NAME_LOWER}}'', toLower L projectName),
      (''{{PROJECT_NAME_UPPER}}'', toUpper L projectName)]"

fun addExtraVars :: "(string \<times> string) list \<Rightarrow> (string \<times> string) list \<Rightarrow> (string \<times> string) list" where
  "addExtraVars [] replacements = replacements"
| "addExtraVars ((k, v) # extraVars) replacements =
     addExtraVars extraVars (AList.update (''{{'' @ k @ ''}}'') v replacements)"

fun replaceLoop :: "(string \<times> string) list \<Rightarrow> string \<Rightarrow> string" where
  "replaceLoop [] result = result"
| "replaceLoop ((placeholder, v) # rest) result =
     replaceLoop rest (ReplaceAll result placeholder v)"

text \<open>The second loop ranges over the map in the order the runtime picks: the entries
  sorted by the priority \<open>prio\<close> of their keys.\<close>

definition ReplacePlaceholders ::
  "golib \<Rightarrow> (string \<Rightarrow> nat) \<Rightarrow> string \<Rightarrow> string \<Rightarrow> string \<Rightarrow> (string \<times> string) list \<Rightarrow> string" where
  "ReplacePlaceholders L prio content projectName author extraVars =
     (let replacements = addExtraVars extraVars (builtins L projectName author)
      in replaceLoop (sort_key (\<lambda>kv. prio (fst kv)) replacements) content)"

text \<open>
  \<^verbatim>\<open>bufio.Scanner\<close> with the default split function: the text is cut at every newline,
  a last line without newline counts when it is not empty, and one trailing carriage
  return is dropped from each line. (The scanner's limit of 64 KiB per line is not
  modelled.)
\<close>

fun splitLines :: "string \<Rightarrow> string \<Rightarrow> string list" where
  "splitLines cur [] = (if cur = [] then [] else [rev cur])"
| "splitLines cur (c # cs) =
     (if c = CHR 0x0A then rev cur # splitLines [] cs else splitLines (c # cur) cs)"

definition dropCR :: "string \<Rightarrow> string" where
  "dropCR l = (if l \<noteq> [] \<and> last l = CHR 0x0D then butlast l else l)"

definition scanLines :: "string \<Rightarrow> string list" where
  "scanLines text = map dropCR (splitLines [] text)"

fun patternLines :: "string list \<Rightarrow> string list" where
  "patternLines [] = []"
| "patternLines (t # ts) =
     (let line = TrimSpace t
      in if line = [] \<or> HasPrefix line ''#'' then patternLines ts
         else line # patternLines ts)"

text \<open>\<^verbatim>\<open>filepath.ToSlash\<close> is the identity where the separator is the slash.\<close>

definition ToSlash :: "string \<Rightarrow> string" where
  "ToSlash path = path"

fun MatchIgnore :: "golib \<Rightarrow> string \<Rightarrow> string list \<Rightarrow> bool" where
  "MatchIgnore L relPath [] = False"
| "MatchIgnore L relPath (pattern # patterns) =
     (let normalizedPath = ToSlash relPath;
          normalizedPattern = ToSlash (TrimSuffix pattern ''/'')
      in if glob L normalizedPattern normalizedPath then True
         else if HasPrefix (normalizedPath @ ''/'') (normalizedPattern @ ''/'') then True
         else MatchIgnore L relPath patterns)"


subsection \<open>Package path/filepath, on Unix\<close>

text \<open>
  The path functions of the Go standard library, written after their documented behaviour
  for slash-separated paths. \<open>pathElems\<close> cuts a path at every slash, \<open>joinSlash\<close> is
  \<^verbatim>\<open>strings.Join(elems, "/")\<close>.
\<close>

fun splitOn :: "char \<Rightarrow> string \<Rightarrow> string \<Rightarrow> string list" where
  "splitOn sep cur [] = [rev cur]"
| "splitOn sep cur (c # cs) =
     (if c = sep then rev cur # splitOn sep [] cs else splitOn sep (c # cur) cs)"

definition pathElems :: "string \<Rightarrow> string list" where
  "pathElems path = splitOn (CHR ''/'') [] path"

fun joinSlash :: "string list \<Rightarrow> string" where
  "joinSlash [] = []"
| "joinSlash [e] = e"
| "joinSlash (e # f # es) = e @ ''/'' @ joinSlash (f # es)"

definition IsAbs :: "string \<Rightarrow> bool" where
  "IsAbs path = HasPrefix path ''/''"

text \<open>
  \<^verbatim>\<open>filepath.Clean\<close>: empty and \<^verbatim>\<open>.\<close> elements vanish, \<^verbatim>\<open>..\<close> removes the element before
  it, is dropped at the root and kept at the start of a relative path. \<open>out\<close> is the
  stack of the elements kept so far.
\<close>

fun cleanElems :: "bool \<Rightarrow> string list \<Rightarrow> string list \<Rightarrow> string list" where
  "cleanElems rooted out [] = rev out"
| "cleanElems rooted out (e # es) =
     (if e = [] \<or> e = ''.'' then cleanElems rooted out es
      else if e = ''..'' then
        (case out of
           [] \<Rightarrow> if rooted then cleanElems rooted [] es else cleanElems rooted [''..''] es
         | x # xs \<Rightarrow> if x = ''..'' then cleanElems rooted (''..'' # out) es
                     else cleanElems rooted xs es)
      else cleanElems rooted (e # out) es)"

definition Clean :: "string \<Rightarrow> string" where
  "Clean path =
     (let rooted = IsAbs path; es = cleanElems rooted [] (pathElems path)
      in if rooted then ''/'' @ joinSlash es
         else if es = [] then ''.'' else joinSlash es)"

text \<open>\<^verbatim>\<open>filepath.Join\<close>: the elements from the first non-empty one on, joined and cleaned.\<close>

fun Join :: "string list \<Rightarrow> string" where
  "Join [] = []"
| "Join (e # es) = (if e = [] then Join es else Clean (joinSlash (e # es)))"

text \<open>\<^verbatim>\<open>filepath.Abs\<close>, with the working directory \<open>wd\<close> of the process.\<close>

definition Abs :: "string \<Rightarrow> string \<Rightarrow> string" where
  "Abs wd path = (if IsAbs path then Clean path else Join [wd, path])"

text \<open>
  \<^verbatim>\<open>filepath.Rel\<close>: \<open>None\<close> is its error, which it returns together with the empty
  string. The two cleaned paths must both be rooted or both be relative; the common
  leading elements are dropped, and every element left of the base becomes \<^verbatim>\<open>..\<close>.
\<close>

definition nonEmptyElems :: "string \<Rightarrow> string list" where
  "nonEmptyElems path = filter (\<lambda>e. e \<noteq> []) (pathElems path)"

fun dropCommon :: "string list \<Rightarrow> string list \<Rightarrow> string list \<times> string list" where
  "dropCommon (b # bs) (t # ts) = (if b = t then dropCommon bs ts else (b # bs, t # ts))"
| "dropCommon bs ts = (bs, ts)"

definition Rel :: "string \<Rightarrow> string \<Rightarrow> string option" where
  "Rel basepath targpath =
     (let base = Clean basepath; targ = Clean targpath
      in if targ = base then Some ''.''
         else let base1 = (if base = ''.'' then [] else base)
              in if IsAbs base1 \<noteq> IsAbs targ then None
                 else (case dropCommon (nonEmptyElems base1) (nonEmptyElems targ) of
                         ([], ts) \<Rightarrow> Some (joinSlash ts)
                       | (b # bs, []) \<Rightarrow> Some (joinSlash (map (\<lambda>e. ''..'') (b # bs)))
                       | (b # bs, t # ts) \<Rightarrow>
                           if b = ''..'' then None
                           else Some (joinSlash (map (\<lambda>e. ''..'') (b # bs) @ t # ts))))"

text \<open>The base name that \<^verbatim>\<open>os.Lstat(name)\<close> reports as \<^verbatim>\<open>Name()\<close>.\<close>

fun stripSlashes :: "string \<Rightarrow> string" where
  "stripSlashes [] = []"
| "stripSlashes [c] = [c]"
| "stripSlashes (c # d # cs) =
     (if last (d # cs) = CHR ''/'' then stripSlashes (butlast (c # d # cs)) else c # d # cs)"

definition basename :: "string \<Rightarrow> string" where
  "basename name =
     (let n = stripSlashes name in if n = ''/'' then n else last (pathElems n))"

subsection \<open>The file system\<close>

text \<open>
  A tree of directories and regular files with permission bits; there are no symbolic
  links, and permissions never deny access. A directory lists its entries by name. The
  process has a working directory, against which relative paths are resolved.
\<close>

datatype node = File nat string | Dir nat "(string \<times> node) list"

record filesys =
  fs_root :: node
  fs_cwd :: string

datatype errno = ENOENT | ENOTDIR | EISDIR

record fileinfo =
  Name :: string
  IsDir :: bool
  Mode :: nat

fun isDirNode :: "node \<Rightarrow> bool" where
  "isDirNode (Dir m ents) = True"
| "isDirNode (File m c) = False"

fun modeOf :: "node \<Rightarrow> nat" where
  "modeOf (Dir m ents) = m"
| "modeOf (File m c) = m"

text \<open>The chain of names that leads from the root to \<open>path\<close>; the empty path names nothing.\<close>

definition resolve :: "filesys \<Rightarrow> string \<Rightarrow> string list option" where
  "resolve fs path =
     (if path = [] then None else Some (nonEmptyElems (Abs (fs_cwd fs) path)))"

fun lookupNode :: "node \<Rightarrow> string list \<Rightarrow> errno + node" where
  "lookupNode n [] = Inr n"
| "lookupNode (File m c) (e # es) = Inl ENOTDIR"
| "lookupNode (Dir m ents) (e # es) =
     (case map_of ents e of None \<Rightarrow> Inl ENOENT | Some child \<Rightarrow> lookupNode child es)"

definition nodeAt :: "filesys \<Rightarrow> string \<Rightarrow> errno + node" where
  "nodeAt fs path =
     (case resolve fs path of None \<Rightarrow> Inl ENOENT | Some es \<Rightarrow> lookupNode (fs_root fs) es)"

definition Lstat :: "filesys \<Rightarrow> string \<Rightarrow> errno + fileinfo" where
  "Lstat fs path =
     (case nodeAt fs path of
        Inl e \<Rightarrow> Inl e
      | Inr n \<Rightarrow> Inr \<lparr>Name = basename path, IsDir = isDirNode n, Mode = modeOf n\<rparr>)"

text \<open>Without symbolic links \<^verbatim>\<open>os.Stat\<close> is \<^verbatim>\<open>os.Lstat\<close>.\<close>

definition Stat :: "filesys \<Rightarrow> string \<Rightarrow> errno + fileinfo" where
  "Stat fs path = Lstat fs path"

definition ReadFile :: "filesys \<Rightarrow> string \<Rightarrow> errno + string" where
  "ReadFile fs path =
     (case nodeAt fs path of
        Inl e \<Rightarrow> Inl e
      | Inr (File m content) \<Rightarrow> Inr content
      | Inr (Dir m ents) \<Rightarrow> Inl EISDIR)"

text \<open>The sorted names of a directory, as \<^verbatim>\<open>filepath.Walk\<close> reads them.\<close>

definition readDirNames :: "filesys \<Rightarrow> string \<Rightarrow> errno + string list" where
  "readDirNames fs path =
     (case nodeAt fs path of
        Inl e \<Rightarrow> Inl e
      | Inr (File m content) \<Rightarrow> Inl ENOTDIR
      | Inr (Dir m ents) \<Rightarrow> Inr (sort (map fst ents)))"

text \<open>\<^verbatim>\<open>os.MkdirAll\<close>: an existing directory is left alone, missing directories are
  created with \<open>perm\<close>, and a file in the way is an error that changes nothing.\<close>

fun mkdirAllNode :: "nat \<Rightarrow> string list \<Rightarrow> node \<Rightarrow> errno + node" where
  "mkdirAllNode perm es (File m c) = Inl ENOTDIR"
| "mkdirAllNode perm [] (Dir m ents) = Inr (Dir m ents)"
| "mkdirAllNode perm (e # es) (Dir m ents) =
     (case map_of ents e of
        None \<Rightarrow>
          (case mkdirAllNode perm es (Dir perm []) of
             Inl x \<Rightarrow> Inl x
           | Inr n \<Rightarrow> Inr (Dir m (ents @ [(e, n)])))
      | Some child \<Rightarrow>
          (case mkdirAllNode perm es child of
             Inl x \<Rightarrow> Inl x
           | Inr n \<Rightarrow> Inr (Dir m (AList.update e n ents))))"

definition MkdirAll :: "filesys \<Rightarrow> string \<Rightarrow> nat \<Rightarrow> errno option \<times> filesys" where
  "MkdirAll fs path perm =
     (case resolve fs path of
        None \<Rightarrow> (Some ENOENT, fs)
      | Some es \<Rightarrow>
          (case mkdirAllNode perm es (fs_root fs) of
             Inl e \<Rightarrow> (Some e, fs)
           | Inr r \<Rightarrow> (None, fs\<lparr>fs_root := r\<rparr>)))"

text \<open>\<^verbatim>\<open>os.WriteFile\<close>: the parent directory must exist; an existing file is overwritten
  and keeps its mode, a new one gets \<open>perm\<close>.\<close>

fun writeNode :: "nat \<Rightarrow> string \<Rightarrow> string list \<Rightarrow> node \<Rightarrow> errno + node" where
  "writeNode perm data [] (File m c) = Inr (File m data)"
| "writeNode perm data [] (Dir m ents) = Inl EISDIR"
| "writeNode perm data (e # es) (File m c) = Inl ENOTDIR"
| "writeNode perm data (e # es) (Dir m ents) =
     (case map_of ents e of
        None \<Rightarrow> if es = [] then Inr (Dir m (ents @ [(e, File perm data)])) else Inl ENOENT
      | Some child \<Rightarrow>
          (case writeNode perm data es child of
             Inl x \<Rightarrow> Inl x
           | Inr n \<Rightarrow> Inr (Dir m (AList.update e n ents))))"

definition WriteFile :: "filesys \<Rightarrow> string \<Rightarrow> string \<Rightarrow> nat \<Rightarrow> errno option \<times> filesys" where
  "WriteFile fs path data perm =
     (case resolve fs path of
        None \<Rightarrow> (Some ENOENT, fs)
      | Some es \<Rightarrow>
          (case writeNode perm data es (fs_root fs) of
             Inl e \<Rightarrow> (Some e, fs)
           | Inr r \<Rightarrow> (None, fs\<lparr>fs_root := r\<rparr>)))"

text \<open>\<^verbatim>\<open>filepath.EvalSymlinks\<close>: it fails when the path does not exist, and there are
  no links to follow.\<close>

definition EvalSymlinks :: "filesys \<Rightarrow> string \<Rightarrow> errno + string" where
  "EvalSymlinks fs path = (case nodeAt fs path of Inl e \<Rightarrow> Inl e | Inr n \<Rightarrow> Inr (Clean path))"

subsection \<open>Package utils, continued: what needs the file system\<close>

definition LoadIgnorePatterns :: "filesys \<Rightarrow> string \<Rightarrow> string \<Rightarrow> string list" where
  "LoadIgnorePatterns fs root filename =
     (let ignorePath = Join [root, filename]
      in case ReadFile fs ignorePath of
           Inl e \<Rightarrow> []
         | Inr content \<Rightarrow> patternLines (scanLines content))"

text \<open>\<^verbatim>\<open>ParseVars\<close>: \<open>splitFirst\<close> is \<^verbatim>\<open>strings.SplitN(kv, "=", 2)\<close>.\<close>

definition splitFirst :: "string \<Rightarrow> string list" where
  "splitFirst kv =
     (if CHR ''='' \<in> set kv
      then [takeWhile (\<lambda>c. c \<noteq> CHR ''='') kv, tl (dropWhile (\<lambda>c. c \<noteq> CHR ''='') kv)]
      else [kv])"

fun ParseVars_loop :: "string list \<Rightarrow> (string \<times> string) list \<Rightarrow> string + (string \<times> string) list" where
  "ParseVars_loop [] result = Inr result"
| "ParseVars_loop (kv # kvs) result =
     (let parts = splitFirst kv
      in if length parts \<noteq> 2
         then Inl (''invalid var format '' @ kv @ '', expected key=value'')
         else let key = TrimSpace (parts ! 0)
              in if key = [] then Inl ''variable key cannot be empty''
                 else ParseVars_loop kvs (AList.update key (parts ! 1) result))"

definition ParseVars :: "string list \<Rightarrow> string + (string \<times> string) list" where
  "ParseVars kvs = ParseVars_loop kvs []"

subsection \<open>Walking a tree\<close>

text \<open>
  Go errors: the sentinel \<^verbatim>\<open>filepath.SkipDir\<close>, an error of the operating system on a
  path, the error of \<^verbatim>\<open>filepath.Rel\<close>, and an error wrapped with a message.
\<close>

datatype go_error =
    SkipDir
  | PathError string errno
  | RelError string string
  | Wrapped string go_error

type_synonym 'a walkFn =
  "string \<Rightarrow> go_error + fileinfo \<Rightarrow> filesys \<times> 'a \<Rightarrow> go_error option \<times> (filesys \<times> 'a)"

text \<open>
  \<^verbatim>\<open>filepath.Walk\<close>. The callback may change the file system while the walk goes on, so
  the recursion is not over a fixed tree: it is bounded by \<open>fuel\<close>, and \<open>None\<close> means
  that the fuel ran out. The callback gets either the entry's \<open>fileinfo\<close> or the error
  of reading it. The names of a directory are read before the callback is called for
  the directory itself; an entry is looked up again when its turn comes.
\<close>

fun walk :: "nat \<Rightarrow> 'a walkFn \<Rightarrow> string \<Rightarrow> fileinfo \<Rightarrow> filesys \<times> 'a
               \<Rightarrow> (go_error option \<times> (filesys \<times> 'a)) option"
and walkNames :: "nat \<Rightarrow> 'a walkFn \<Rightarrow> string \<Rightarrow> string list \<Rightarrow> filesys \<times> 'a
               \<Rightarrow> (go_error option \<times> (filesys \<times> 'a)) option" where
  "walk 0 walkFn path info st = None"
| "walk (Suc n) walkFn path info st =
     (if \<not> IsDir info then Some (walkFn path (Inr info) st)
      else case readDirNames (fst st) path of
             Inl e \<Rightarrow> Some (walkFn path (Inl (PathError path e)) st)
           | Inr names \<Rightarrow>
               (case walkFn path (Inr info) st of
                  (Some err1, st1) \<Rightarrow> Some (Some err1, st1)
                | (None, st1) \<Rightarrow> walkNames n walkFn path names st1))"
| "walkNames n walkFn path [] st = Some (None, st)"
| "walkNames n walkFn path (name # names) st =
     (let filename = Join [path, name]
      in case Lstat (fst st) filename of
           Inl e \<Rightarrow>
             (case walkFn filename (Inl (PathError filename e)) st of
                (Some err, st1) \<Rightarrow>
                  if err \<noteq> SkipDir then Some (Some err, st1)
                  else walkNames n walkFn path names st1
              | (None, st1) \<Rightarrow> walkNames n walkFn path names st1)
         | Inr fileInfo \<Rightarrow>
             (case walk n walkFn filename fileInfo st of
                None \<Rightarrow> None
              | Some (Some err, st1) \<Rightarrow>
                  if \<not> IsDir fileInfo \<or> err \<noteq> SkipDir then Some (Some err, st1)
                  else walkNames n walkFn path names st1
              | Some (None, st1) \<Rightarrow> walkNames n walkFn path names st1))"

definition Walk :: "nat \<Rightarrow> string \<Rightarrow> 'a walkFn \<Rightarrow> filesys \<times> 'a
               \<Rightarrow> (go_error option \<times> (filesys \<times> 'a)) option" where
  "Walk fuel root walkFn st =
     (let r = (case Lstat (fst st) root of
                 Inl e \<Rightarrow> Some (walkFn root (Inl (PathError root e)) st)
               | Inr info \<Rightarrow> walk fuel walkFn root info st)
      in case r of
           None \<Rightarrow> None
         | Some (err, st1) \<Rightarrow> Some (if err = Some SkipDir then None else err, st1))"

subsection \<open>Package project\<close>

record Template =
  tName :: string
  tPath :: string
  tLanguage :: string
  tDescription :: string
  tFiles :: "string list"

record PreviewSummary =
  ProjectName :: string
  TargetDir :: string
  Template :: string
  Language :: string
  Files :: "string list"

definition osError :: "string \<Rightarrow> errno option \<Rightarrow> go_error option" where
  "osError path e = (case e of None \<Rightarrow> None | Some x \<Rightarrow> Some (PathError path x))"

text \<open>A result of \<^verbatim>\<open>filepath.Rel\<close> whose error the caller drops: the empty string on error.\<close>

definition ignoreErr :: "string option \<Rightarrow> string" where
  "ignoreErr r = (case r of None \<Rightarrow> [] | Some s \<Rightarrow> s)"

text \<open>The mode \<^verbatim>\<open>0755\<close> is 493.\<close>

definition ensureTargetDir :: "filesys \<Rightarrow> string \<Rightarrow> go_error option \<times> filesys" where
  "ensureTargetDir fs targetDir =
     (case MkdirAll fs targetDir 493 of
        (Some e, fs1) \<Rightarrow> (Some (Wrapped ''failed to create directory'' (PathError targetDir e)), fs1)
      | (None, fs1) \<Rightarrow> (None, fs1))"

text \<open>\<^verbatim>\<open>filepath.Abs\<close> fails only when the working directory is unknown, so the error
  results of \<^verbatim>\<open>resolvePaths\<close> do not arise.\<close>

definition resolvePaths :: "filesys \<Rightarrow> string \<Rightarrow> string \<Rightarrow> string \<times> string" where
  "resolvePaths fs targetDir sourceDir =
     (let absTargetDir = Abs (fs_cwd fs) targetDir;
          absSourceDir = Abs (fs_cwd fs) sourceDir;
          absTargetDir = (case EvalSymlinks fs absTargetDir of
                            Inr realTarget \<Rightarrow> realTarget | Inl e \<Rightarrow> absTargetDir);
          absSourceDir = (case EvalSymlinks fs absSourceDir of
                            Inr realSource \<Rightarrow> realSource | Inl e \<Rightarrow> absSourceDir)
      in (absTargetDir, absSourceDir))"

definition isTargetInsideSource :: "string \<Rightarrow> string \<Rightarrow> bool" where
  "isTargetInsideSource absSourceDir absTargetDir =
     (case Rel absSourceDir absTargetDir of
        None \<Rightarrow> False
      | Some relTarget \<Rightarrow> \<not> HasPrefix relTarget ''..'')"

definition shouldSkipDir :: "string \<Rightarrow> bool" where
  "shouldSkipDir name =
     (name = ''node_modules'' \<or> name = ''vendor'' \<or> name = ''.venv'' \<or> name = ''dist''
      \<or> name = ''build'' \<or> name = ''.git'')"

definition isTargetOrChild :: "string \<Rightarrow> string \<Rightarrow> string \<Rightarrow> bool" where
  "isTargetOrChild srcPath absSourceDir targetRoot =
     (let relSrcFromSource = ignoreErr (Rel absSourceDir srcPath);
          relTarget = ignoreErr (Rel absSourceDir targetRoot)
      in relSrcFromSource = relTarget
         \<or> HasPrefix (relSrcFromSource @ ''/'') (relTarget @ ''/''))"

text \<open>The pair is (\<open>skip\<close>, \<open>skipDir\<close>).\<close>

definition shouldSkipEntry ::
  "golib \<Rightarrow> fileinfo \<Rightarrow> string \<Rightarrow> string \<Rightarrow> string \<Rightarrow> string \<Rightarrow> bool \<Rightarrow> string list
     \<Rightarrow> bool \<times> bool" where
  "shouldSkipEntry L info srcPath sourceRoot targetRoot absSourceDir targetInsideSource ignores =
     (if IsDir info \<and> shouldSkipDir (Name info) then (True, True)
      else if targetInsideSource \<and> isTargetOrChild srcPath absSourceDir targetRoot
      then (if IsDir info then (True, True) else (True, False))
      else case Rel sourceRoot srcPath of
             None \<Rightarrow> (False, False)
           | Some relPath \<Rightarrow>
               if relPath = ''.'' then (True, False)
               else if MatchIgnore L (ToSlash relPath) ignores
               then (if IsDir info then (True, True) else (True, False))
               else (False, False))"

definition joinDest :: "string \<Rightarrow> string \<Rightarrow> string \<Rightarrow> string" where
  "joinDest targetRoot sourceRoot srcPath =
     (let relPath = ignoreErr (Rel sourceRoot srcPath) in Join [targetRoot, relPath])"

definition ensureDir :: "filesys \<Rightarrow> string \<Rightarrow> nat \<Rightarrow> go_error option \<times> filesys" where
  "ensureDir fs path mode = (case MkdirAll fs path mode of (e, fs1) \<Rightarrow> (osError path e, fs1))"

definition copyFileWithReplacements ::
  "golib \<Rightarrow> filesys \<Rightarrow> string \<Rightarrow> string \<Rightarrow> string \<Rightarrow> string \<Rightarrow> nat \<Rightarrow> (string \<times> string) list
     \<Rightarrow> go_error option \<times> filesys" where
  "copyFileWithReplacements L fs src dst projectName author mode extraVars =
     (case ReadFile fs src of
        Inl e \<Rightarrow> (Some (Wrapped (''failed to read '' @ src) (PathError src e)), fs)
      | Inr content \<Rightarrow>
          if IsBinary content 8000
          then (case WriteFile fs dst content mode of (e, fs1) \<Rightarrow> (osError dst e, fs1))
          else let contentStr =
                     ReplacePlaceholders L (mapPrio L src) content projectName author extraVars
               in case WriteFile fs dst contentStr mode of (e, fs1) \<Rightarrow> (osError dst e, fs1))"

definition copyTree_walker ::
  "golib \<Rightarrow> string \<Rightarrow> string \<Rightarrow> string \<Rightarrow> bool \<Rightarrow> string \<Rightarrow> string \<Rightarrow> (string \<times> string) list
     \<Rightarrow> string list \<Rightarrow> unit walkFn" where
  "copyTree_walker L sourceRoot targetRoot absSourceDir targetInsideSource projectName author
       extraVars ignores srcPath info st =
     (case info of
        Inl err \<Rightarrow> (Some err, st)
      | Inr info \<Rightarrow>
          (case shouldSkipEntry L info srcPath sourceRoot targetRoot absSourceDir
                  targetInsideSource ignores of
             (True, skipDir) \<Rightarrow> if skipDir then (Some SkipDir, st) else (None, st)
           | (False, skipDir) \<Rightarrow>
               let dstPath = joinDest targetRoot sourceRoot srcPath
               in if IsDir info
                  then (case ensureDir (fst st) dstPath (Mode info) of
                          (e, fs1) \<Rightarrow> (e, (fs1, ())))
                  else (case copyFileWithReplacements L (fst st) srcPath dstPath projectName
                               author (Mode info) extraVars of
                          (e, fs1) \<Rightarrow> (e, (fs1, ())))))"

definition copyTree ::
  "golib \<Rightarrow> nat \<Rightarrow> filesys \<Rightarrow> string \<Rightarrow> string \<Rightarrow> string \<Rightarrow> bool \<Rightarrow> string \<Rightarrow> string
     \<Rightarrow> (string \<times> string) list \<Rightarrow> string list \<Rightarrow> (go_error option \<times> filesys) option" where
  "copyTree L fuel fs sourceRoot targetRoot absSourceDir targetInsideSource projectName author
       extraVars ignores =
     map_option (\<lambda>(e, st). (e, fst st))
       (Walk fuel sourceRoot
          (copyTree_walker L sourceRoot targetRoot absSourceDir targetInsideSource projectName
             author extraVars ignores)
          (fs, ()))"

definition CreateFromTemplate ::
  "golib \<Rightarrow> nat \<Rightarrow> filesys \<Rightarrow> Template \<Rightarrow> string \<Rightarrow> string \<Rightarrow> string \<Rightarrow> (string \<times> string) list
     \<Rightarrow> (go_error option \<times> filesys) option" where
  "CreateFromTemplate L fuel fs tmpl projectName targetDir author extraVars =
     (case ensureTargetDir fs targetDir of
        (Some err, fs1) \<Rightarrow> Some (Some err, fs1)
      | (None, fs1) \<Rightarrow>
          (case resolvePaths fs1 targetDir (tPath tmpl) of
             (absTargetDir, absSourceDir) \<Rightarrow>
               let targetInsideSource = isTargetInsideSource absSourceDir absTargetDir;
                   ignores = LoadIgnorePatterns fs1 absSourceDir ''.foundryignore''
               in copyTree L fuel fs1 (tPath tmpl) targetDir absSourceDir targetInsideSource
                    projectName author extraVars ignores))"

text \<open>The callback of the walk in \<^verbatim>\<open>PreviewFromTemplate\<close>; the state of the walk carries
  the slice \<open>files\<close> that the closure appends to.\<close>

definition Preview_walker ::
  "golib \<Rightarrow> string \<Rightarrow> string \<Rightarrow> string \<Rightarrow> bool \<Rightarrow> string list \<Rightarrow> (string list) walkFn" where
  "Preview_walker L tmplPath targetDir absSourceDir targetInsideSource ignores srcPath info st =
     (case info of
        Inl err \<Rightarrow> (Some err, st)
      | Inr info \<Rightarrow>
          if IsDir info \<and> shouldSkipDir (Name info) then (Some SkipDir, st)
          else if targetInsideSource \<and>
                  (let relSrcFromSource = ignoreErr (Rel absSourceDir srcPath);
                       relTarget = ignoreErr (Rel absSourceDir targetDir)
                   in relSrcFromSource = relTarget
                      \<or> HasPrefix (relSrcFromSource @ ''/'') (relTarget @ ''/''))
          then (if IsDir info then (Some SkipDir, st) else (None, st))
          else (case Rel tmplPath srcPath of
                  None \<Rightarrow> (Some (RelError tmplPath srcPath), st)
                | Some relPath \<Rightarrow>
                    if MatchIgnore L (ToSlash relPath) ignores
                    then (if IsDir info then (Some SkipDir, st) else (None, st))
                    else if relPath = ''.'' then (None, st)
                    else (let dstPath = Join [targetDir, relPath]
                          in (None, (fst st, snd st @ [dstPath])))))"

definition PreviewFromTemplate ::
  "golib \<Rightarrow> nat \<Rightarrow> filesys \<Rightarrow> Template \<Rightarrow> string \<Rightarrow> string \<Rightarrow> string \<Rightarrow> (string \<times> string) list
     \<Rightarrow> (go_error + PreviewSummary) option" where
  "PreviewFromTemplate L fuel fs tmpl projectName targetDir author extraVars =
     (case resolvePaths fs targetDir (tPath tmpl) of
        (absTargetDir, absSourceDir) \<Rightarrow>
          let targetInsideSource = isTargetInsideSource absSourceDir absTargetDir;
              ignores = LoadIgnorePatterns fs absSourceDir ''.foundryignore''
          in (case Walk fuel (tPath tmpl)
                     (Preview_walker L (tPath tmpl) targetDir absSourceDir targetInsideSource
                        ignores)
                     (fs, []) of
                None \<Rightarrow> None
              | Some (Some err, st) \<Rightarrow> Some (Inl err)
              | Some (None, st) \<Rightarrow>
                  Some (Inr \<lparr>ProjectName = projectName, TargetDir = targetDir,
                             Template = tName tmpl, Language = tLanguage tmpl,
                             Files = snd st\<rparr>)))"

subsection \<open>Package cmd: the template branch of the new command\<close>

definition determineProjectDir :: "string \<Rightarrow> string \<Rightarrow> string" where
  "determineProjectDir projectName targetPath =
     (if targetPath \<noteq> [] then Join [targetPath, projectName] else projectName)"

text \<open>
  \<^verbatim>\<open>newCmd.Run\<close> from the point where a template has been selected. \<^verbatim>\<open>exitWithError\<close>
  ends the process: the run is over with that error and the file system as it is then.
  The steps after a successful creation (post-create commands, git) run other programs
  and are left out.
\<close>

datatype exit_error =
    TemplatePathGone string
  | DirectoryExists string
  | VarError string
  | PreviewFailed go_error
  | CreateFailed go_error

datatype run_result =
    Exited exit_error filesys
  | DryRun PreviewSummary filesys
  | Created filesys

definition newCmd_Run ::
  "golib \<Rightarrow> nat \<Rightarrow> filesys \<Rightarrow> Template \<Rightarrow> string \<Rightarrow> string \<Rightarrow> string list \<Rightarrow> bool \<Rightarrow> string
     \<Rightarrow> run_result option" where
  "newCmd_Run L fuel fs tmpl projectName targetPath varsKV dryRun cfgAuthor =
     (if Stat fs (tPath tmpl) = Inl ENOENT
      then Some (Exited (TemplatePathGone (tPath tmpl)) fs)
      else let projectDir = determineProjectDir projectName targetPath
           in (case Stat fs projectDir of
                 Inr info \<Rightarrow> Some (Exited (DirectoryExists projectDir) fs)
               | Inl e \<Rightarrow>
                   (case ParseVars varsKV of
                      Inl msg \<Rightarrow> Some (Exited (VarError msg) fs)
                    | Inr extraVars \<Rightarrow>
                        if dryRun
                        then (case PreviewFromTemplate L fuel fs tmpl projectName projectDir
                                     cfgAuthor extraVars of
                                None \<Rightarrow> None
                              | Some (Inl err) \<Rightarrow> Some (Exited (PreviewFailed err) fs)
                              | Some (Inr summary) \<Rightarrow> Some (DryRun summary fs))
                        else (case CreateFromTemplate L fuel fs tmpl projectName projectDir
                                     cfgAuthor extraVars of
                                None \<Rightarrow> None
                              | Some (Some err, fs1) \<Rightarrow> Some (Exited (CreateFailed err) fs1)
                              | Some (None, fs1) \<Rightarrow> Some (Created fs1)))))"

text \<open>The texts that the round-trip example of the placeholder engine passes through:
  \<open>a\<close> and \<open>b\<close> say whether the project token and the author token are expanded.\<close>

definition rt_state :: "bool \<Rightarrow> bool \<Rightarrow> string" where
  "rt_state a b = (if a then ''demo'' else ''{{PROJECT_NAME}}'') @ '' by ''
                  @ (if b then ''Ada'' else ''{{AUTHOR}}'')"

section \<open>Properties\<close>

subsection \<open>Binary detection\<close>

lemma IsBinary_loop_iff:
  "0 \<le> i \<Longrightarrow> IsBinary_loop data checkSize i
     \<longleftrightarrow> (\<exists>j. i \<le> j \<and> j < checkSize \<and> data ! nat j = CHR 0x00)"
proof (induction data checkSize i rule: IsBinary_loop.induct)
  case (1 data checkSize i)
  show ?case
  proof (cases "i < checkSize")
    case False
    then show ?thesis by (subst IsBinary_loop.simps) auto
  next
    case True
    show ?thesis
    proof (cases "data ! nat i = CHR 0x00")
      case z: True
      with True show ?thesis by (subst IsBinary_loop.simps) auto
    next
      case nz: False
      have ih: "IsBinary_loop data checkSize (i + 1)
         \<longleftrightarrow> (\<exists>j. i + 1 \<le> j \<and> j < checkSize \<and> data ! nat j = CHR 0x00)"
        using "1.IH" [OF True nz] "1.prems" by simp
      have "(\<exists>j. i + 1 \<le> j \<and> j < checkSize \<and> data ! nat j = CHR 0x00)
         \<longleftrightarrow> (\<exists>j. i \<le> j \<and> j < checkSize \<and> data ! nat j = CHR 0x00)"
      proof
        assume "\<exists>j. i + 1 \<le> j \<and> j < checkSize \<and> data ! nat j = CHR 0x00"
        then obtain j where "i + 1 \<le> j" "j < checkSize" "data ! nat j = CHR 0x00" by blast
        then have "i \<le> j \<and> j < checkSize \<and> data ! nat j = CHR 0x00" by simp
        then show "\<exists>j. i \<le> j \<and> j < checkSize \<and> data ! nat j = CHR 0x00" by blast
      next
        assume "\<exists>j. i \<le> j \<and> j < checkSize \<and> data ! nat j = CHR 0x00"
        then obtain j where j: "i \<le> j" "j < checkSize" "data ! nat j = CHR 0x00" by blast
        with nz have "j \<noteq> i" by auto
        with j have "i + 1 \<le> j \<and> j < checkSize \<and> data ! nat j = CHR 0x00" by simp
        then show "\<exists>j. i + 1 \<le> j \<and> j < checkSize \<and> data ! nat j = CHR 0x00" by blast
      qed
      with ih True nz show ?thesis by (subst IsBinary_loop.simps) simp
    qed
  qed
qed

lemma IsBinary_iff: "IsBinary data n \<longleftrightarrow> CHR 0x00 \<in> set (take (nat n) data)"
proof -
  have "IsBinary data n
      \<longleftrightarrow> (\<exists>j. 0 \<le> j \<and> j < Min (int (length data)) n \<and> data ! nat j = CHR 0x00)"
    by (simp add: IsBinary_def IsBinary_loop_iff)
  also have "\<dots> \<longleftrightarrow> (\<exists>k. k < length data \<and> k < nat n \<and> data ! k = CHR 0x00)"
  proof
    assume "\<exists>j. 0 \<le> j \<and> j < Min (int (length data)) n \<and> data ! nat j = CHR 0x00"
    then obtain j where "0 \<le> j" "j < Min (int (length data)) n" "data ! nat j = CHR 0x00"
      by blast
    then have "nat j < length data \<and> nat j < nat n \<and> data ! nat j = CHR 0x00"
      by (auto simp: Min_def split: if_splits)
    then show "\<exists>k. k < length data \<and> k < nat n \<and> data ! k = CHR 0x00" by blast
  next
    assume "\<exists>k. k < length data \<and> k < nat n \<and> data ! k = CHR 0x00"
    then obtain k where "k < length data" "k < nat n" "data ! k = CHR 0x00" by blast
    then have "0 \<le> int k \<and> int k < Min (int (length data)) n \<and> data ! nat (int k) = CHR 0x00"
      by (auto simp: Min_def)
    then show "\<exists>j. 0 \<le> j \<and> j < Min (int (length data)) n \<and> data ! nat j = CHR 0x00"
      by blast
  qed
  also have "\<dots> \<longleftrightarrow> CHR 0x00 \<in> set (take (nat n) data)"
    by (auto simp: in_set_conv_nth)
  finally show ?thesis .
qed

subsection \<open>The ignore matcher\<close>

text \<open>
  Claim C6. Whatever the pattern set, a path that lies under the directory a pattern
  names (the pattern with one trailing slash stripped, followed by a slash and anything)
  is matched: the prefix test of that pattern succeeds, if no earlier pattern has
  matched already.
\<close>

theorem MatchIgnore_directory_descendant:
  "pattern \<in> set patterns \<Longrightarrow>
   MatchIgnore L (ToSlash (TrimSuffix pattern ''/'') @ ''/'' @ rest) patterns"
  by (induction patterns) (auto simp: Let_def HasPrefix_def ToSlash_def)

theorem MatchIgnore_directory_descendant_witness:
  "MatchIgnore \<lparr>glob = (\<lambda>p n. False), toLower = id, toUpper = id, mapPrio = (\<lambda>f k. 0)\<rparr>
     ''docs/api/index.md'' [''*.tmp'', ''docs/'']"
  using MatchIgnore_directory_descendant
    [of "''docs/''" "[''*.tmp'', ''docs/'']"
        "\<lparr>glob = (\<lambda>p n. False), toLower = id, toUpper = id, mapPrio = (\<lambda>f k. 0)\<rparr>"
        "''api/index.md''"]
  by (simp add: ToSlash_def TrimSuffix_def HasSuffix_def suffix_def)

subsection \<open>The placeholder engine\<close>

lemma ReplaceAll_absent: "\<not> Contains s old \<Longrightarrow> ReplaceAll s old new = s"
  by (induction s old new rule: ReplaceAll.induct) auto

lemma Contains_append_left: "Contains s (a @ b) \<Longrightarrow> Contains s a"
  by (induction s) (auto simp: prefix_def)

lemma addExtraVars_keys:
  "\<forall>k \<in> fst ` set base. prefix ''{{'' k \<Longrightarrow>
   \<forall>k \<in> fst ` set (addExtraVars extraVars base). prefix ''{{'' k"
proof (induction extraVars arbitrary: base)
  case Nil
  then show ?case by simp
next
  case (Cons a extraVars)
  obtain k v where a: "a = (k, v)" by (cases a)
  have "\<forall>k' \<in> fst ` set (AList.update (''{{'' @ k @ ''}}'') v base). prefix ''{{'' k'"
    using Cons.prems by (simp add: dom_update)
  from Cons.IH [OF this] show ?case by (simp add: a)
qed

lemma replaceLoop_absent:
  "\<forall>k \<in> fst ` set es. \<not> Contains s k \<Longrightarrow> replaceLoop es s = s"
  by (induction es) (auto simp: ReplaceAll_absent)

lemma builtins_keys: "\<forall>k \<in> fst ` set (builtins L pn au). prefix ''{{'' k"
  by (simp add: builtins_def)

lemma no_token_identity:
  assumes "\<not> Contains content ''{{''"
  shows "ReplacePlaceholders L prio content projectName author extraVars = content"
proof -
  let ?r = "addExtraVars extraVars (builtins L projectName author)"
  have keys: "\<forall>k \<in> fst ` set ?r. prefix ''{{'' k"
    by (rule addExtraVars_keys [OF builtins_keys])
  have "\<forall>k \<in> fst ` set (sort_key (\<lambda>kv. prio (fst kv)) ?r). \<not> Contains content k"
  proof
    fix k assume "k \<in> fst ` set (sort_key (\<lambda>kv. prio (fst kv)) ?r)"
    then have "k \<in> fst ` set ?r" by simp
    then have "prefix ''{{'' k" using keys by blast
    then obtain rest where "k = ''{{'' @ rest" by (auto simp: prefix_def)
    then show "\<not> Contains content k" using assms Contains_append_left by blast
  qed
  then show ?thesis by (simp add: ReplacePlaceholders_def replaceLoop_absent)
qed

lemma rt_step:
  "kv \<in> set (builtins L ''demo'' ''Ada'') \<Longrightarrow>
   ReplaceAll (rt_state a b) (fst kv) (snd kv) =
     rt_state (a \<or> fst kv = ''{{PROJECT_NAME}}'') (b \<or> fst kv = ''{{AUTHOR}}'')"
  by (cases a; cases b) (auto simp: builtins_def rt_state_def ReplaceAll_absent)

lemma rt_loop:
  "set es \<subseteq> set (builtins L ''demo'' ''Ada'') \<Longrightarrow>
   replaceLoop es (rt_state a b) =
     rt_state (a \<or> ''{{PROJECT_NAME}}'' \<in> fst ` set es) (b \<or> ''{{AUTHOR}}'' \<in> fst ` set es)"
proof (induction es arbitrary: a b)
  case Nil
  then show ?case by simp
next
  case (Cons kv es)
  obtain k v where kv: "kv = (k, v)" by (cases kv)
  have step: "ReplaceAll (rt_state a b) k v
      = rt_state (a \<or> k = ''{{PROJECT_NAME}}'') (b \<or> k = ''{{AUTHOR}}'')"
    using rt_step [of kv L a b] Cons.prems by (simp add: kv)
  have sub: "set es \<subseteq> set (builtins L ''demo'' ''Ada'')" using Cons.prems by simp
  show ?case
    unfolding kv replaceLoop.simps step Cons.IH [OF sub]
    by (rule arg_cong2 [where f = rt_state]) auto
qed

lemma rt_expand:
  "ReplacePlaceholders L prio ''{{PROJECT_NAME}} by {{AUTHOR}}'' ''demo'' ''Ada'' []
     = ''demo by Ada''"
proof -
  let ?es = "sort_key (\<lambda>kv. prio (fst kv)) (builtins L ''demo'' ''Ada'')"
  have "replaceLoop ?es (rt_state False False) =
     rt_state (False \<or> ''{{PROJECT_NAME}}'' \<in> fst ` set ?es)
              (False \<or> ''{{AUTHOR}}'' \<in> fst ` set ?es)"
    by (rule rt_loop [where L = L]) simp
  moreover have "''{{PROJECT_NAME}}'' \<in> fst ` set ?es" "''{{AUTHOR}}'' \<in> fst ` set ?es"
    by (simp_all add: builtins_def)
  ultimately show ?thesis
    by (simp add: ReplacePlaceholders_def rt_state_def)
qed

text \<open>
  Claim C9. In whatever order the runtime ranges over the replacement map, and whatever
  the case-folding functions return, expanding \<^verbatim>\<open>{{PROJECT_NAME}} by {{AUTHOR}}\<close> for
  project \<^verbatim>\<open>demo\<close> and author \<^verbatim>\<open>Ada\<close> with no extra variables gives \<^verbatim>\<open>demo by Ada\<close>, and
  expanding that result again with the same inputs returns it unchanged.
\<close>

theorem placeholder_round_trip:
  "ReplacePlaceholders L prio ''{{PROJECT_NAME}} by {{AUTHOR}}'' ''demo'' ''Ada'' []
     = ''demo by Ada''
   \<and> ReplacePlaceholders L prio'
        (ReplacePlaceholders L prio ''{{PROJECT_NAME}} by {{AUTHOR}}'' ''demo'' ''Ada'' [])
        ''demo'' ''Ada'' []
     = ''demo by Ada''"
proof -
  have "\<not> Contains ''demo by Ada'' ''{{''" by simp
  then have "ReplacePlaceholders L prio' ''demo by Ada'' ''demo'' ''Ada'' [] = ''demo by Ada''"
    by (rule no_token_identity)
  then show ?thesis by (simp add: rt_expand)
qed

text \<open>
  Claim C10. A text in which the two characters \<^verbatim>\<open>{{\<close> do not occur is returned
  unchanged, for every project name, author, extra variables and iteration order: every
  key of the replacement map starts with \<^verbatim>\<open>{{\<close>.
\<close>

theorem ReplacePlaceholders_token_free:
  "\<not> Contains content ''{{'' \<Longrightarrow>
   ReplacePlaceholders L prio content projectName author extraVars = content"
  by (rule no_token_identity)

theorem ReplacePlaceholders_token_free_witness:
  "ReplacePlaceholders
     \<lparr>glob = (\<lambda>p n. False), toLower = id, toUpper = id, mapPrio = (\<lambda>f k. 0)\<rparr> (\<lambda>k. length k)
     ''fn main() { {} }'' ''demo'' ''Ada'' [(''LICENSE'', ''MIT'')] = ''fn main() { {} }''"
  using ReplacePlaceholders_token_free
    [of "''fn main() { {} }''"
        "\<lparr>glob = (\<lambda>p n. False), toLower = id, toUpper = id, mapPrio = (\<lambda>f k. 0)\<rparr>"
        "\<lambda>k. length k" "''demo''" "''Ada''" "[(''LICENSE'', ''MIT'')]"]
  by simp

end
